theory Spec2Isabelle
  imports Complex_Main
begin

section \<open>Floating-point values\<close>

text \<open>
  The program computes with numpy float64 scalars and arrays. A value is modelled as a
  real number or one of the three non-finite values of IEEE 754. Rounding, overflow,
  underflow and the sign of zero are not modelled: a finite result is the exact real
  result, and a zero denominator is taken as positive zero. Under numpy's default error
  state a division by zero or an invalid operation emits a warning and returns an
  infinity or NaN; it does not raise.

  In float64 the result of an operation is rounded, and it is an infinity when the exact
  result is above the largest float64 value, \<open>2 ^ 1024 - 2 ^ 971\<close>. A statement below
  that says that the result is an expression over these operations holds for the rounded
  operations as well. A statement that bounds or compares computed values is made only
  on inputs where rounding and overflow do not change the outcome; in particular the
  quotient \<open>pi / b\<close> overflows for a bound angle \<open>b\<close> below about \<open>1.75e-308\<close> radians.
\<close>

datatype npfloat = Fin real | PInf | NInf | NaN

instantiation npfloat :: "{plus, uminus, minus, times, inverse, ord}"
begin

fun plus_npfloat :: "npfloat \<Rightarrow> npfloat \<Rightarrow> npfloat" where
  "plus_npfloat (Fin a) (Fin b) = Fin (a + b)"
| "plus_npfloat NaN y = NaN"
| "plus_npfloat x NaN = NaN"
| "plus_npfloat PInf NInf = NaN"
| "plus_npfloat NInf PInf = NaN"
| "plus_npfloat PInf y = PInf"
| "plus_npfloat x PInf = PInf"
| "plus_npfloat NInf y = NInf"
| "plus_npfloat x NInf = NInf"

fun uminus_npfloat :: "npfloat \<Rightarrow> npfloat" where
  "uminus_npfloat (Fin a) = Fin (- a)"
| "uminus_npfloat PInf = NInf"
| "uminus_npfloat NInf = PInf"
| "uminus_npfloat NaN = NaN"

definition minus_npfloat :: "npfloat \<Rightarrow> npfloat \<Rightarrow> npfloat" where
  "minus_npfloat x y = x + (- y)"

fun times_npfloat :: "npfloat \<Rightarrow> npfloat \<Rightarrow> npfloat" where
  "times_npfloat (Fin a) (Fin b) = Fin (a * b)"
| "times_npfloat NaN y = NaN"
| "times_npfloat x NaN = NaN"
| "times_npfloat PInf (Fin b) = (if b = 0 then NaN else if 0 < b then PInf else NInf)"
| "times_npfloat NInf (Fin b) = (if b = 0 then NaN else if 0 < b then NInf else PInf)"
| "times_npfloat (Fin a) PInf = (if a = 0 then NaN else if 0 < a then PInf else NInf)"
| "times_npfloat (Fin a) NInf = (if a = 0 then NaN else if 0 < a then NInf else PInf)"
| "times_npfloat PInf PInf = PInf"
| "times_npfloat PInf NInf = NInf"
| "times_npfloat NInf PInf = NInf"
| "times_npfloat NInf NInf = PInf"

fun divide_npfloat :: "npfloat \<Rightarrow> npfloat \<Rightarrow> npfloat" where
  "divide_npfloat (Fin a) (Fin b) =
     (if b = 0 then (if a = 0 then NaN else if 0 < a then PInf else NInf)
      else Fin (a / b))"
| "divide_npfloat NaN y = NaN"
| "divide_npfloat x NaN = NaN"
| "divide_npfloat (Fin a) PInf = Fin 0"
| "divide_npfloat (Fin a) NInf = Fin 0"
| "divide_npfloat PInf (Fin b) = (if 0 \<le> b then PInf else NInf)"
| "divide_npfloat NInf (Fin b) = (if 0 \<le> b then NInf else PInf)"
| "divide_npfloat x y = NaN"

definition inverse_npfloat :: "npfloat \<Rightarrow> npfloat" where
  "inverse_npfloat x = divide (Fin 1) x"

fun less_npfloat :: "npfloat \<Rightarrow> npfloat \<Rightarrow> bool" where
  "less_npfloat (Fin a) (Fin b) = (a < b)"
| "less_npfloat NaN y = False"
| "less_npfloat x NaN = False"
| "less_npfloat NInf NInf = False"
| "less_npfloat NInf y = True"
| "less_npfloat PInf y = False"
| "less_npfloat x PInf = True"
| "less_npfloat x NInf = False"

fun less_eq_npfloat :: "npfloat \<Rightarrow> npfloat \<Rightarrow> bool" where
  "less_eq_npfloat (Fin a) (Fin b) = (a \<le> b)"
| "less_eq_npfloat NaN y = False"
| "less_eq_npfloat x NaN = False"
| "less_eq_npfloat NInf y = True"
| "less_eq_npfloat x PInf = True"
| "less_eq_npfloat x y = False"

instance ..

end

text \<open>\<^verbatim>\<open>np.sin\<close>, \<^verbatim>\<open>np.cos\<close>, \<^verbatim>\<open>np.arctan\<close>, \<^verbatim>\<open>np.sqrt\<close>, \<^verbatim>\<open>x**2\<close> and \<^verbatim>\<open>np.sum\<close>.\<close>

fun np_sin :: "npfloat \<Rightarrow> npfloat" where
  "np_sin (Fin a) = Fin (sin a)"
| "np_sin x = NaN"

fun np_cos :: "npfloat \<Rightarrow> npfloat" where
  "np_cos (Fin a) = Fin (cos a)"
| "np_cos x = NaN"

fun np_arctan :: "npfloat \<Rightarrow> npfloat" where
  "np_arctan (Fin a) = Fin (arctan a)"
| "np_arctan PInf = Fin (pi / 2)"
| "np_arctan NInf = Fin (- (pi / 2))"
| "np_arctan NaN = NaN"

fun np_sqrt :: "npfloat \<Rightarrow> npfloat" where
  "np_sqrt (Fin a) = (if a < 0 then NaN else Fin (sqrt a))"
| "np_sqrt PInf = PInf"
| "np_sqrt NInf = NaN"
| "np_sqrt NaN = NaN"

definition np_square :: "npfloat \<Rightarrow> npfloat" where
  "np_square x = x * x"

definition np_sum :: "npfloat list \<Rightarrow> npfloat" where
  "np_sum xs = foldr (+) xs (Fin 0)"

section \<open>Errors and loops\<close>

text \<open>
  Reading an array beyond its length raises \<^verbatim>\<open>IndexError\<close>, and Python's division of a
  float by zero raises \<^verbatim>\<open>ZeroDivisionError\<close>; the exception ends the evaluation. A
  \<^verbatim>\<open>for k in range(n)\<close> loop threads its state through the body and stops at the first
  error.
\<close>

datatype error = IndexError | ZeroDivisionError

primrec for_range :: "nat list \<Rightarrow> (nat \<Rightarrow> 's \<Rightarrow> error + 's) \<Rightarrow> 's \<Rightarrow> error + 's" where
  "for_range [] body s = Inr s"
| "for_range (k # ks) body s =
     (case body k s of Inl e \<Rightarrow> Inl e | Inr s' \<Rightarrow> for_range ks body s')"

section \<open>The cosine factor: \<^verbatim>\<open>get_cosine_factor_original\<close>\<close>

text \<open>
  The arguments are float64 values, as \<^verbatim>\<open>solve_nonlinear\<close> passes them from the
  parameter vector: every division of the function is numpy's, also the one by the bound
  angle. The locals \<^verbatim>\<open>z\<close> and \<^verbatim>\<open>theta\<close> of the loop body are functions of what they are
  computed from.
\<close>

definition wake_z :: "npfloat \<Rightarrow> npfloat \<Rightarrow> npfloat \<Rightarrow> npfloat \<Rightarrow> npfloat" where
  "wake_z relaxationFactor R0 gamma bound_angle =
     (relaxationFactor * R0 * np_sin gamma) / np_sin bound_angle"

definition wake_theta :: "npfloat list \<Rightarrow> npfloat list \<Rightarrow> npfloat \<Rightarrow> nat \<Rightarrow> nat \<Rightarrow> npfloat" where
  "wake_theta X Y z i j = np_arctan ((Y ! j - Y ! i) / (X ! j - X ! i + z))"

text \<open>The body of the inner loop, at the pair \<open>(i, j)\<close>, on the matrix \<open>f_theta\<close>.\<close>

definition cosine_factor_body ::
  "npfloat list \<Rightarrow> npfloat list \<Rightarrow> npfloat \<Rightarrow> npfloat \<Rightarrow> npfloat \<Rightarrow> npfloat \<Rightarrow> npfloat \<Rightarrow>
   nat \<Rightarrow> nat \<Rightarrow> npfloat list list \<Rightarrow> error + npfloat list list" where
  "cosine_factor_body X Y R0 relaxationFactor bound_angle q gamma i j f_theta =
     (if X ! i < X ! j then
        (if j < length Y \<and> i < length Y then
           (let z = wake_z relaxationFactor R0 gamma bound_angle;
                theta = wake_theta X Y z i j
            in if - bound_angle < theta \<and> theta < bound_angle
               then Inr (f_theta[i := (f_theta ! i)[j := (Fin 1 + np_cos (q * theta)) / Fin 2]])
               else Inr f_theta)
         else Inl IndexError)
      else Inr f_theta)"

definition to_radians :: "npfloat \<Rightarrow> npfloat" where
  "to_radians bound_angle = bound_angle * Fin pi / Fin 180"

definition get_cosine_factor_original ::
  "npfloat list \<Rightarrow> npfloat list \<Rightarrow> npfloat \<Rightarrow> npfloat \<Rightarrow> npfloat \<Rightarrow> error + npfloat list list" where
  "get_cosine_factor_original X Y R0 bound_angle relaxationFactor =
     (let n = length X;
          bound_angle = to_radians bound_angle;
          f_theta = replicate n (replicate n (Fin 0));
          q = Fin pi / bound_angle;
          gamma = (Fin pi / Fin 2) - bound_angle
      in for_range [0..<n] (\<lambda>i.
           for_range [0..<n] (\<lambda>j.
             cosine_factor_body X Y R0 relaxationFactor bound_angle q gamma i j))
           f_theta)"

text \<open>
  When \<^verbatim>\<open>bound_angle\<close> is a Python float (the default \<^verbatim>\<open>20.0\<close> of the signature, or a
  parameter passed by object), \<^verbatim>\<open>np.pi/bound_angle\<close> is Python's division: it raises
  \<^verbatim>\<open>ZeroDivisionError\<close> when the angle in radians is zero, where numpy returns an
  infinity. Every other operation of the function gives the same value for both kinds of
  argument.
\<close>

definition get_cosine_factor_original_pyfloat ::
  "npfloat list \<Rightarrow> npfloat list \<Rightarrow> npfloat \<Rightarrow> npfloat \<Rightarrow> npfloat \<Rightarrow> error + npfloat list list" where
  "get_cosine_factor_original_pyfloat X Y R0 bound_angle relaxationFactor =
     (if to_radians bound_angle = Fin 0 then Inl ZeroDivisionError
      else get_cosine_factor_original X Y R0 bound_angle relaxationFactor)"

section \<open>The components \<^verbatim>\<open>JensenCosine\<close> and \<^verbatim>\<open>JensenCosineFortran\<close>\<close>

text \<open>
  The fields of \<^verbatim>\<open>self\<close> that \<^verbatim>\<open>solve_nonlinear\<close> reads, and the entries of
  \<^verbatim>\<open>params\<close> it reads. Scalars of the parameter vector are float64 values.
\<close>

record component =
  nTurbines :: nat
  direction_id :: nat
  radius_multiplier :: npfloat

record params =
  turbineXw :: "npfloat list"
  turbineYw :: "npfloat list"
  turbineZ :: "npfloat list"
  rotorDiameter :: "npfloat list"
  model_params_alpha :: npfloat
  model_params_spread_angle :: npfloat
  axialInduction :: "npfloat list"
  wind_speed :: npfloat
  model_params_relaxationFactor :: npfloat

text \<open>The body of the loop over \<open>j\<close> in \<^verbatim>\<open>JensenCosine.solve_nonlinear\<close>, on the array \<open>loss\<close>.\<close>

definition loss_body ::
  "npfloat list \<Rightarrow> npfloat list \<Rightarrow> npfloat list \<Rightarrow> npfloat \<Rightarrow> npfloat list list \<Rightarrow>
   nat \<Rightarrow> nat \<Rightarrow> npfloat list \<Rightarrow> error + npfloat list" where
  "loss_body Xw a r alpha f_theta i j loss =
     (if i < length Xw \<and> j < length Xw then
        (let dx = Xw ! i - Xw ! j
         in if dx > Fin 0 then
              (if j < length a \<and> j < length f_theta \<and> i < length (f_theta ! j) \<and>
                  j < length r \<and> j < length loss then
                 (let loss = loss[j := Fin 2 * a ! j *
                               np_square (f_theta ! j ! i * r ! j / (r ! j + alpha * dx))];
                      loss = loss[j := np_square (loss ! j)]
                  in Inr loss)
               else Inl IndexError)
            else Inr loss)
      else Inl IndexError)"

text \<open>The body of the loop over \<open>i\<close>, on the arrays \<open>loss\<close> and \<open>hubVelocity\<close>.\<close>

definition hub_body ::
  "nat \<Rightarrow> npfloat list \<Rightarrow> npfloat list \<Rightarrow> npfloat list \<Rightarrow> npfloat \<Rightarrow> npfloat \<Rightarrow>
   npfloat list list \<Rightarrow> nat \<Rightarrow> npfloat list \<times> npfloat list \<Rightarrow>
   error + npfloat list \<times> npfloat list" where
  "hub_body n Xw a r alpha windSpeed f_theta i st =
     (let loss = replicate (length (fst st)) (Fin 0);
          hubVelocity = snd st
      in case for_range [0..<n] (loss_body Xw a r alpha f_theta i) loss of
           Inl e \<Rightarrow> Inl e
         | Inr loss \<Rightarrow>
             (let totalLoss = np_sqrt (np_sum loss)
              in Inr (loss, hubVelocity[i := (Fin 1 - totalLoss) * windSpeed])))"

definition JensenCosine_solve_nonlinear :: "component \<Rightarrow> params \<Rightarrow> error + npfloat list" where
  "JensenCosine_solve_nonlinear self p =
     (let r = map (\<lambda>d. Fin 0.5 * d) (rotorDiameter p);
          alpha = model_params_alpha p;
          bound_angle = model_params_spread_angle p;
          a = axialInduction p;
          windSpeed = wind_speed p;
          n = nTurbines self;
          loss = replicate n (Fin 0);
          hubVelocity = replicate n (Fin 0);
          relaxationFactor = model_params_relaxationFactor p
      in if r = [] then Inl IndexError
         else
           (case get_cosine_factor_original (turbineXw p) (turbineYw p)
                   (r ! 0 * radius_multiplier self) bound_angle relaxationFactor of
              Inl e \<Rightarrow> Inl e
            | Inr f_theta \<Rightarrow>
                (case for_range [0..<n]
                        (hub_body n (turbineXw p) a r alpha windSpeed f_theta)
                        (loss, hubVelocity) of
                   Inl e \<Rightarrow> Inl e
                 | Inr st \<Rightarrow> Inr (snd st))))"

text \<open>
  \<^verbatim>\<open>_jensen2.jensenwake\<close> is a compiled module whose source is not part of the Python
  file; it is a parameter here: any function of the four arguments it is called with.
\<close>

type_synonym jensenwake_fun =
  "npfloat list \<Rightarrow> npfloat list \<Rightarrow> npfloat list \<Rightarrow> npfloat \<Rightarrow> npfloat list"

definition JensenCosineFortran_solve_nonlinear ::
  "jensenwake_fun \<Rightarrow> component \<Rightarrow> params \<Rightarrow> error + npfloat list" where
  "JensenCosineFortran_solve_nonlinear jensenwake self p =
     (let r = map (\<lambda>d. Fin 0.5 * d) (rotorDiameter p);
          bound_angle = model_params_spread_angle p;
          windSpeed = wind_speed p;
          relaxationFactor = model_params_relaxationFactor p
      in if r = [] then Inl IndexError
         else
           (case get_cosine_factor_original (turbineXw p) (turbineYw p)
                   (r ! 0 * radius_multiplier self) bound_angle relaxationFactor of
              Inl e \<Rightarrow> Inl e
            | Inr f_theta \<Rightarrow>
                (let loss = jensenwake (turbineXw p) (turbineYw p) (rotorDiameter p)
                              relaxationFactor;
                     hubVelocity = map (\<lambda>l. (Fin 1 - l) * windSpeed) loss
                 in Inr hubVelocity)))"

section \<open>The group \<^verbatim>\<open>Jensen\<close>\<close>

text \<open>
  \<^verbatim>\<open>model_options\<close> is \<^verbatim>\<open>None\<close> or a dictionary. The constructor compares the variant with
  string literals by \<^verbatim>\<open>is\<close>, the identity of objects: two strings that are the same
  object are equal, and equal strings need not be the same object. The comparison is a
  parameter \<open>same\<close> of the model. The result is the list of the subsystems added to the
  group, in order, each with its name.
\<close>

datatype pyval = PyStr string | PyNum npfloat

datatype component_class =
    JensenTopHat | JensenCosine | JensenCosineFortran
  | effectiveVelocityCosineNoOverlap | effectiveVelocityConference
  | JensenCosineYaw | JensenCosineYawIntegral

definition default_options :: "string \<rightharpoonup> pyval" where
  "default_options = [''variant'' \<mapsto> PyStr ''Tophat'']"

definition checked_options :: "(string \<rightharpoonup> pyval) option \<Rightarrow> pyval \<times> (string \<rightharpoonup> pyval)" where
  "checked_options model_options =
     (case model_options of
        None \<Rightarrow> (PyStr ''Tophat'', default_options)
      | Some d \<Rightarrow>
          (case d ''variant'' of
             None \<Rightarrow> (PyStr ''Tophat'', default_options)
           | Some v \<Rightarrow> (v, d)))"

definition Jensen_init ::
  "(pyval \<Rightarrow> string \<Rightarrow> bool) \<Rightarrow> nat \<Rightarrow> nat \<Rightarrow> (string \<rightharpoonup> pyval) option \<Rightarrow>
   (string \<times> component_class) list" where
  "Jensen_init same nTurbs direction model_options =
     (let variant = fst (checked_options model_options)
      in if same variant ''TopHat'' then [(''f_1'', JensenTopHat)]
         else if same variant ''Cosine'' then [(''f_1'', JensenCosine)]
         else if same variant ''CosineFortran'' then [(''f_1'', JensenCosineFortran)]
         else if same variant ''CosineNoOverlap_1R'' \<or> same variant ''CosineNoOverlap_2R''
           then [(''f_1'', effectiveVelocityCosineNoOverlap)]
         else if same variant ''Conference'' then [(''f_1'', effectiveVelocityConference)]
         else if same variant ''CosineYaw_1R'' \<or> same variant ''CosineYaw_2R''
           then [(''f_1'', JensenCosineYaw)]
         else if same variant ''CosineYawIntegral'' then [(''f_1'', JensenCosineYawIntegral)]
         else if same variant ''CosineYaw'' then [(''f_1'', JensenCosineYaw)]
         else [])"

section \<open>Auxiliary notions for the proofs\<close>

definition is_matrix :: "nat \<Rightarrow> 'a list list \<Rightarrow> bool" where
  "is_matrix n f \<longleftrightarrow> length f = n \<and> (\<forall>a<n. length (f ! a) = n)"

text \<open>What the body of the inner loop leaves at \<open>(i, j)\<close>, where \<open>old\<close> was before.\<close>

definition cosine_factor_entry ::
  "npfloat list \<Rightarrow> npfloat list \<Rightarrow> npfloat \<Rightarrow> npfloat \<Rightarrow> npfloat \<Rightarrow> npfloat \<Rightarrow> npfloat \<Rightarrow>
   nat \<Rightarrow> nat \<Rightarrow> npfloat \<Rightarrow> npfloat" where
  "cosine_factor_entry X Y R0 relaxationFactor b q gamma i j old =
     (if X ! i < X ! j \<and>
         - b < wake_theta X Y (wake_z relaxationFactor R0 gamma b) i j \<and>
         wake_theta X Y (wake_z relaxationFactor R0 gamma b) i j < b
      then (Fin 1 + np_cos (q * wake_theta X Y (wake_z relaxationFactor R0 gamma b) i j)) / Fin 2
      else old)"

text \<open>
  What the body of the loop over \<open>j\<close> leaves at \<open>loss[j]\<close>, where \<open>old\<close> was before, and
  the hub velocity computed from the array of these.
\<close>

definition loss_term ::
  "npfloat list \<Rightarrow> npfloat list \<Rightarrow> npfloat list \<Rightarrow> npfloat \<Rightarrow> npfloat list list \<Rightarrow>
   nat \<Rightarrow> nat \<Rightarrow> npfloat \<Rightarrow> npfloat" where
  "loss_term Xw a r alpha f i j old =
     (if Xw ! i - Xw ! j > Fin 0
      then np_square (Fin 2 * a ! j *
             np_square (f ! j ! i * r ! j / (r ! j + alpha * (Xw ! i - Xw ! j))))
      else old)"

definition hub_value ::
  "nat \<Rightarrow> npfloat list \<Rightarrow> npfloat list \<Rightarrow> npfloat list \<Rightarrow> npfloat \<Rightarrow> npfloat \<Rightarrow>
   npfloat list list \<Rightarrow> nat \<Rightarrow> npfloat" where
  "hub_value n Xw a r alpha windSpeed f i =
     (Fin 1 - np_sqrt (np_sum (map (\<lambda>j. loss_term Xw a r alpha f i j (Fin 0)) [0..<n]))) *
     windSpeed"

text \<open>The inputs on which no array is read beyond its length.\<close>

definition well_formed :: "component \<Rightarrow> params \<Rightarrow> bool" where
  "well_formed self p \<longleftrightarrow>
     0 < length (rotorDiameter p) \<and>
     nTurbines self \<le> length (turbineXw p) \<and>
     length (turbineXw p) \<le> length (turbineYw p) \<and>
     nTurbines self \<le> length (rotorDiameter p) \<and>
     nTurbines self \<le> length (axialInduction p)"

text \<open>
  The two-turbine example: turbines at \<open>x = 0\<close> and \<open>x = 500\<close> on the wind axis, rotor
  diameter 80, \<open>alpha = 0.1\<close>, a spread angle of 20 degrees, wind speed 8 and relaxation
  factor 1, with the axial induction as a parameter.
\<close>

definition two_turbines :: component where
  "two_turbines = \<lparr>nTurbines = 2, direction_id = 0, radius_multiplier = Fin 1\<rparr>"

definition scenario_A :: "npfloat \<Rightarrow> params" where
  "scenario_A a =
     \<lparr>turbineXw = [Fin 0, Fin 500], turbineYw = [Fin 0, Fin 0], turbineZ = [Fin 0, Fin 0],
      rotorDiameter = [Fin 80, Fin 80], model_params_alpha = Fin 0.1,
      model_params_spread_angle = Fin 20, axialInduction = [a, a],
      wind_speed = Fin 8, model_params_relaxationFactor = Fin 1\<rparr>"

text \<open>
  Two aligned turbines one metre apart, with an axial induction of 0.9; the other
  parameters are those of the two-turbine example.
\<close>

definition close_pair :: params where
  "close_pair =
     \<lparr>turbineXw = [Fin 0, Fin 1], turbineYw = [Fin 0, Fin 0], turbineZ = [Fin 0, Fin 0],
      rotorDiameter = [Fin 80, Fin 80], model_params_alpha = Fin 0.1,
      model_params_spread_angle = Fin 20, axialInduction = [Fin 0.9, Fin 0.9],
      wind_speed = Fin 8, model_params_relaxationFactor = Fin 1\<rparr>"

section \<open>The default variant of the group\<close>

text \<open>
  Claim C10. When \<^verbatim>\<open>model_options\<close> is \<^verbatim>\<open>None\<close> or a dictionary without the key
  \<^verbatim>\<open>variant\<close>, the variant is the string \<^verbatim>\<open>Tophat\<close>, which is none of the literals the
  constructor compares with, so no subsystem is added to the group.
\<close>

theorem Jensen_default_adds_no_component:
  assumes same: "\<And>v s. same v s \<Longrightarrow> v = PyStr s"
    and opts: "model_options = None \<or> (\<exists>d. model_options = Some d \<and> d ''variant'' = None)"
  shows "fst (checked_options model_options) = PyStr ''Tophat'' \<and>
         Jensen_init same nTurbs direction model_options = []"
proof -
  have v: "fst (checked_options model_options) = PyStr ''Tophat''"
    using opts by (auto simp: checked_options_def)
  have no: "\<not> same (PyStr ''Tophat'') s" if "s \<noteq> ''Tophat''" for s
    using same [of "PyStr ''Tophat''" s] that by auto
  show ?thesis
    using v by (simp add: Jensen_init_def no)
qed

theorem Jensen_default_adds_no_component_witness:
  "fst (checked_options None) = PyStr ''Tophat'' \<and>
   Jensen_init (\<lambda>v s. v = PyStr s) 3 0 None = []"
  using Jensen_default_adds_no_component [of "\<lambda>v s. v = PyStr s" None 3 0] by simp

section \<open>Loops\<close>

lemma for_range_invariant:
  assumes "Inv d s"
    and "\<And>k d s. k \<in> set ks \<Longrightarrow> Inv d s \<Longrightarrow> \<exists>s'. body k s = Inr s' \<and> Inv (d @ [k]) s'"
  shows "\<exists>s'. for_range ks body s = Inr s' \<and> Inv (d @ ks) s'"
  using assms
proof (induction ks arbitrary: d s)
  case Nil
  then show ?case by simp
next
  case (Cons k ks)
  from Cons.prems obtain s1 where s1: "body k s = Inr s1" "Inv (d @ [k]) s1"
    by (meson list.set_intros(1))
  have "\<exists>s'. for_range ks body s1 = Inr s' \<and> Inv ((d @ [k]) @ ks) s'"
    by (rule Cons.IH [OF s1(2)]) (use Cons.prems(2) in auto)
  with s1(1) show ?case by simp
qed

section \<open>The entries of the cosine-factor matrix\<close>

lemma nth_update2:
  "i < length f \<Longrightarrow> j < length (f ! i) \<Longrightarrow>
   f[i := (f ! i)[j := v]] ! a ! b = (if a = i \<and> b = j then v else f ! a ! b)"
  by (cases "a = i") (auto simp: nth_list_update)

lemma is_matrix_update2:
  "is_matrix n f \<Longrightarrow> i < n \<Longrightarrow> is_matrix n (f[i := (f ! i)[j := v]])"
  by (auto simp: is_matrix_def nth_list_update)

lemma cosine_factor_entry_idem:
  "cosine_factor_entry X Y R0 xi b q g i j (cosine_factor_entry X Y R0 xi b q g i j old) =
   cosine_factor_entry X Y R0 xi b q g i j old"
  by (simp add: cosine_factor_entry_def)

lemma cosine_factor_body_eq:
  assumes "is_matrix n f" "i < n" "j < n" "n \<le> length Y"
  shows "\<exists>f'. cosine_factor_body X Y R0 xi b q g i j f = Inr f' \<and> is_matrix n f' \<and>
           (\<forall>a<n. \<forall>c<n. f' ! a ! c =
              (if a = i \<and> c = j then cosine_factor_entry X Y R0 xi b q g i j (f ! i ! j)
               else f ! a ! c))"
proof -
  have len: "i < length f" "j < length (f ! i)"
    using assms by (auto simp: is_matrix_def)
  show ?thesis
    using assms len
    by (auto simp: cosine_factor_body_def cosine_factor_entry_def Let_def
        is_matrix_update2 nth_update2)
qed

lemma cosine_inner_loop:
  assumes f0: "is_matrix n f0" and i: "i < n" and Y: "n \<le> length Y"
  shows "\<exists>f'. for_range [0..<n] (cosine_factor_body X Y R0 xi b q g i) f0 = Inr f' \<and>
           is_matrix n f' \<and>
           (\<forall>a<n. \<forall>c<n. f' ! a ! c =
              (if a = i then cosine_factor_entry X Y R0 xi b q g i c (f0 ! i ! c)
               else f0 ! a ! c))"
proof -
  define Inv where "Inv d f \<longleftrightarrow> is_matrix n f \<and>
      (\<forall>a<n. \<forall>c<n. f ! a ! c =
         (if a = i \<and> c \<in> set d then cosine_factor_entry X Y R0 xi b q g i c (f0 ! i ! c)
          else f0 ! a ! c))" for d f
  have start: "Inv [] f0"
    using f0 by (simp add: Inv_def)
  have step: "\<exists>s'. cosine_factor_body X Y R0 xi b q g i k s = Inr s' \<and> Inv (d @ [k]) s'"
    if k: "k \<in> set [0..<n]" and inv: "Inv d s" for k d s
  proof -
    from k have kn: "k < n" by simp
    from inv have m: "is_matrix n s" by (simp add: Inv_def)
    from cosine_factor_body_eq [OF m i kn Y, of X R0 xi b q g]
    obtain f' where f': "cosine_factor_body X Y R0 xi b q g i k s = Inr f'" "is_matrix n f'"
      "\<forall>a<n. \<forall>c<n. f' ! a ! c =
         (if a = i \<and> c = k then cosine_factor_entry X Y R0 xi b q g i k (s ! i ! k)
          else s ! a ! c)"
      by blast
    have "Inv (d @ [k]) f'"
      unfolding Inv_def
    proof (intro conjI allI impI)
      show "is_matrix n f'" by (rule f'(2))
    next
      fix a c assume a: "a < n" and c: "c < n"
      from inv a c have s: "s ! a ! c =
         (if a = i \<and> c \<in> set d then cosine_factor_entry X Y R0 xi b q g i c (f0 ! i ! c)
          else f0 ! a ! c)"
        by (simp add: Inv_def)
      from f'(3) a c have "f' ! a ! c =
         (if a = i \<and> c = k then cosine_factor_entry X Y R0 xi b q g i k (s ! i ! k)
          else s ! a ! c)" by blast
      then show "f' ! a ! c =
         (if a = i \<and> c \<in> set (d @ [k])
          then cosine_factor_entry X Y R0 xi b q g i c (f0 ! i ! c) else f0 ! a ! c)"
        using s by (auto simp: cosine_factor_entry_idem)
    qed
    with f'(1) show ?thesis by blast
  qed
  have "\<exists>f'. for_range [0..<n] (cosine_factor_body X Y R0 xi b q g i) f0 = Inr f' \<and>
          Inv ([] @ [0..<n]) f'"
    by (rule for_range_invariant [where Inv = Inv, OF start]) (rule step)
  then show ?thesis
    by (auto simp: Inv_def)
qed

lemma cosine_outer_loop:
  assumes Y: "n \<le> length Y"
  shows "\<exists>f. for_range [0..<n] (\<lambda>i. for_range [0..<n] (cosine_factor_body X Y R0 xi b q g i))
              (replicate n (replicate n (Fin 0))) = Inr f \<and>
           is_matrix n f \<and>
           (\<forall>a<n. \<forall>c<n. f ! a ! c = cosine_factor_entry X Y R0 xi b q g a c (Fin 0))"
proof -
  define Inv where "Inv d f \<longleftrightarrow> is_matrix n f \<and>
      (\<forall>a<n. \<forall>c<n. f ! a ! c =
         (if a \<in> set d then cosine_factor_entry X Y R0 xi b q g a c (Fin 0) else Fin 0))" for d f
  have start: "Inv [] (replicate n (replicate n (Fin 0)))"
    by (simp add: Inv_def is_matrix_def)
  have step: "\<exists>s'. for_range [0..<n] (cosine_factor_body X Y R0 xi b q g k) s = Inr s' \<and>
                Inv (d @ [k]) s'"
    if k: "k \<in> set [0..<n]" and inv: "Inv d s" for k d s
  proof -
    from k have kn: "k < n" by simp
    from inv have m: "is_matrix n s" by (simp add: Inv_def)
    from cosine_inner_loop [OF m kn Y, of X R0 xi b q g]
    obtain f' where f': "for_range [0..<n] (cosine_factor_body X Y R0 xi b q g k) s = Inr f'"
      "is_matrix n f'"
      "\<forall>a<n. \<forall>c<n. f' ! a ! c =
         (if a = k then cosine_factor_entry X Y R0 xi b q g k c (s ! k ! c) else s ! a ! c)"
      by blast
    have "Inv (d @ [k]) f'"
      unfolding Inv_def
    proof (intro conjI allI impI)
      show "is_matrix n f'" by (rule f'(2))
    next
      fix a c assume a: "a < n" and c: "c < n"
      from inv kn c have sk: "s ! k ! c =
         (if k \<in> set d then cosine_factor_entry X Y R0 xi b q g k c (Fin 0) else Fin 0)"
        by (simp add: Inv_def)
      from inv a c have s: "s ! a ! c =
         (if a \<in> set d then cosine_factor_entry X Y R0 xi b q g a c (Fin 0) else Fin 0)"
        by (simp add: Inv_def)
      from f'(3) a c have "f' ! a ! c =
         (if a = k then cosine_factor_entry X Y R0 xi b q g k c (s ! k ! c) else s ! a ! c)"
        by blast
      then show "f' ! a ! c =
         (if a \<in> set (d @ [k]) then cosine_factor_entry X Y R0 xi b q g a c (Fin 0) else Fin 0)"
        using s sk by (auto simp: cosine_factor_entry_idem)
    qed
    with f'(1) show ?thesis by blast
  qed
  have "\<exists>f. for_range [0..<n] (\<lambda>i. for_range [0..<n] (cosine_factor_body X Y R0 xi b q g i))
              (replicate n (replicate n (Fin 0))) = Inr f \<and> Inv ([] @ [0..<n]) f"
    by (rule for_range_invariant [where Inv = Inv, OF start]) (rule step)
  then show ?thesis
    by (auto simp: Inv_def)
qed

lemma get_cosine_factor_original_entries:
  assumes Y: "length X \<le> length Y"
  shows "\<exists>f. get_cosine_factor_original X Y R0 bound_angle xi = Inr f \<and>
           is_matrix (length X) f \<and>
           (\<forall>i<length X. \<forall>j<length X. f ! i ! j =
              cosine_factor_entry X Y R0 xi (to_radians bound_angle)
                (Fin pi / to_radians bound_angle) (Fin pi / Fin 2 - to_radians bound_angle)
                i j (Fin 0))"
  unfolding get_cosine_factor_original_def Let_def
  by (rule cosine_outer_loop [OF Y])

section \<open>Properties of the cosine factor\<close>

text \<open>
  The raised cosine in the arithmetic of the model, where the quotient \<open>pi / b\<close> is exact
  and does not overflow.
\<close>

lemma raised_cosine_range:
  assumes "- b < theta" "theta < b"
  shows "\<exists>v. (Fin 1 + np_cos (Fin pi / b * theta)) / Fin 2 = Fin v \<and> 0 \<le> v \<and> v \<le> 1"
proof -
  obtain t where t: "theta = Fin t"
    using assms by (cases theta; cases b) auto
  have bound: "0 \<le> (1 + c) / 2 \<and> (1 + c) / 2 \<le> 1" if "- 1 \<le> c" "c \<le> 1" for c :: real
    using that by simp
  show ?thesis
  proof (cases b)
    case (Fin bb)
    with assms t have "0 < bb" by simp
    then have "(Fin 1 + np_cos (Fin pi / b * theta)) / Fin 2 = Fin ((1 + cos (pi / bb * t)) / 2)"
      using Fin t by simp
    moreover have "0 \<le> (1 + cos (pi / bb * t)) / 2 \<and> (1 + cos (pi / bb * t)) / 2 \<le> 1"
      by (rule bound) (rule cos_ge_minus_one, rule cos_le_one)
    ultimately show ?thesis by blast
  next
    case PInf
    then show ?thesis using t by simp
  next
    case NInf
    then show ?thesis using assms t by simp
  next
    case NaN
    then show ?thesis using assms by simp
  qed
qed

lemma cosine_factor_entry_range:
  "\<exists>v. cosine_factor_entry X Y R0 xi b (Fin pi / b) g i j (Fin 0) = Fin v \<and> 0 \<le> v \<and> v \<le> 1"
  using raised_cosine_range [of b "wake_theta X Y (wake_z xi R0 g b) i j"]
  by (auto simp: cosine_factor_entry_def)

lemma sin_20_pos: "0 < sin (pi / 9)"
  by (rule sin_gt_zero) (use pi_gt_zero in auto)

lemma sin_70_pos: "0 < sin (7 * pi / 18)"
  by (rule sin_gt_zero) (use pi_gt_zero in auto)


lemma list2_eqI:
  "length xs = 2 \<Longrightarrow> xs ! 0 = a \<Longrightarrow> xs ! 1 = b \<Longrightarrow> xs = [a, b]"
  by (cases xs; cases "tl xs") auto

text \<open>
  Claim C2. When \<open>Y\<close> is at least as long as \<open>X\<close>, the function returns an
  \<open>n \<times> n\<close> matrix. With \<open>b\<close> the bound angle converted from degrees to radians,
  \<open>z = relaxationFactor * R0 * sin (pi/2 - b) / sin b\<close> and
  \<open>theta = arctan ((Y[j] - Y[i]) / (X[j] - X[i] + z))\<close>, the entry \<open>f[i][j]\<close> is
  \<open>(1 + cos ((pi / b) * theta)) / 2\<close> when \<open>X[i] < X[j]\<close> and \<open>- b < theta < b\<close>, and
  zero in every other case.
\<close>

theorem cosine_factor_matrix:
  assumes "length X \<le> length Y"
  shows "\<exists>f. get_cosine_factor_original X Y R0 bound_angle relaxationFactor = Inr f \<and>
           length f = length X \<and> (\<forall>i<length X. length (f ! i) = length X) \<and>
           (\<forall>i<length X. \<forall>j<length X.
              f ! i ! j =
                (let b = bound_angle * Fin pi / Fin 180;
                     z = relaxationFactor * R0 * np_sin (Fin pi / Fin 2 - b) / np_sin b;
                     theta = np_arctan ((Y ! j - Y ! i) / (X ! j - X ! i + z))
                 in if X ! i < X ! j \<and> - b < theta \<and> theta < b
                    then (Fin 1 + np_cos (Fin pi / b * theta)) / Fin 2
                    else Fin 0))"
  using get_cosine_factor_original_entries [OF assms, of R0 bound_angle relaxationFactor]
  by (auto simp: is_matrix_def cosine_factor_entry_def wake_theta_def wake_z_def to_radians_def
      Let_def)

theorem cosine_factor_matrix_witness:
  "length [Fin 0, Fin 500] \<le> length [Fin 0, Fin 0] \<and>
   get_cosine_factor_original [Fin 0, Fin 500] [Fin 0, Fin 0] (Fin 40) (Fin 20) (Fin 1) =
     Inr [[Fin 0, Fin 1], [Fin 0, Fin 0]]"
proof -
  have len: "length [Fin 0, Fin 500] \<le> length [Fin 0, Fin 0]" by simp
  from cosine_factor_matrix [OF len, of "Fin 40" "Fin 20" "Fin 1"]
  obtain f where f: "get_cosine_factor_original [Fin 0, Fin 500] [Fin 0, Fin 0] (Fin 40) (Fin 20) (Fin 1) = Inr f"
    and l: "length f = 2" "\<forall>i<2. length (f ! i) = 2"
    and e: "\<forall>i<2. \<forall>j<2. f ! i ! j =
                (let b = Fin 20 * Fin pi / Fin 180;
                     z = Fin 1 * Fin 40 * np_sin (Fin pi / Fin 2 - b) / np_sin b;
                     theta = np_arctan (([Fin 0, Fin 0] ! j - [Fin 0, Fin 0] ! i) / ([Fin 0, Fin 500] ! j - [Fin 0, Fin 500] ! i + z))
                 in if [Fin 0, Fin 500] ! i < [Fin 0, Fin 500] ! j \<and> - b < theta \<and> theta < b
                    then (Fin 1 + np_cos (Fin pi / b * theta)) / Fin 2
                    else Fin 0)"
    by auto
  have "0 < 40 * sin (7 * pi / 18) / sin (pi / 9)"
    using sin_20_pos sin_70_pos by simp
  then have z: "500 + 40 * sin (7 * pi / 18) / sin (pi / 9) \<noteq> 0"
    by linarith
  have "f ! 0 ! 0 = Fin 0" "f ! 0 ! 1 = Fin 1" "f ! 1 ! 0 = Fin 0" "f ! 1 ! 1 = Fin 0"
    using e sin_20_pos z by (simp_all add: Let_def minus_npfloat_def)
  then have "f ! 0 = [Fin 0, Fin 1]" "f ! 1 = [Fin 0, Fin 0]"
    using l(2) by (auto intro!: list2_eqI)
  then have "f = [[Fin 0, Fin 1], [Fin 0, Fin 0]]"
    using l(1) by (auto intro!: list2_eqI)
  with f show ?thesis by simp
qed

lemma scenario_A_factor:
  "get_cosine_factor_original [Fin 0, Fin 500] [Fin 0, Fin 0] (Fin 40) (Fin 20) (Fin 1) =
     Inr [[Fin 0, Fin 1], [Fin 0, Fin 0]]"
proof -
  have len: "length [Fin 0, Fin 500] \<le> length [Fin 0, Fin (0::real)]" by simp
  from get_cosine_factor_original_entries [OF len, of "Fin 40" "Fin 20" "Fin 1"]
  obtain f where f: "get_cosine_factor_original [Fin 0, Fin 500] [Fin 0, Fin 0] (Fin 40) (Fin 20) (Fin 1) = Inr f"
    and l: "length f = 2" "\<forall>i<2. length (f ! i) = 2"
    and e: "\<forall>i<2. \<forall>j<2. f ! i ! j =
              cosine_factor_entry [Fin 0, Fin 500] [Fin 0, Fin 0] (Fin 40) (Fin 1)
                (to_radians (Fin 20)) (Fin pi / to_radians (Fin 20))
                (Fin pi / Fin 2 - to_radians (Fin 20)) i j (Fin 0)"
    by (auto simp: is_matrix_def)
  have "0 < 40 * sin (7 * pi / 18) / sin (pi / 9)"
    using sin_20_pos sin_70_pos by simp
  then have z: "500 + 40 * sin (7 * pi / 18) / sin (pi / 9) \<noteq> 0"
    by linarith
  have "f ! 0 ! 0 = Fin 0" "f ! 0 ! 1 = Fin 1" "f ! 1 ! 0 = Fin 0" "f ! 1 ! 1 = Fin 0"
    using e sin_20_pos z
    by (simp_all add: cosine_factor_entry_def wake_theta_def wake_z_def to_radians_def
        minus_npfloat_def)
  then have "f ! 0 = [Fin 0, Fin 1]" "f ! 1 = [Fin 0, Fin 0]"
    using l(2) by (auto intro!: list2_eqI)
  then have "f = [[Fin 0, Fin 1], [Fin 0, Fin 0]]"
    using l(1) by (auto intro!: list2_eqI)
  with f show ?thesis by simp
qed

section \<open>No validation of the bound angle\<close>

lemma list2_all_eqI:
  "length f = 2 \<Longrightarrow> \<forall>i<2. length (f ! i) = 2 \<Longrightarrow>
   f ! 0 ! 0 = a \<Longrightarrow> f ! 0 ! 1 = b \<Longrightarrow> f ! 1 ! 0 = c \<Longrightarrow> f ! 1 ! 1 = d \<Longrightarrow>
   f = [[a, b], [c, d]]"
proof -
  assume l: "length f = 2" "\<forall>i<2. length (f ! i) = 2"
    and e: "f ! 0 ! 0 = a" "f ! 0 ! 1 = b" "f ! 1 ! 0 = c" "f ! 1 ! 1 = d"
  have "f ! 0 = [a, b]" "f ! 1 = [c, d]"
    using l(2) e by (auto intro!: list2_eqI)
  then show ?thesis
    using l(1) by (auto intro!: list2_eqI)
qed

text \<open>
  Claim C8, counterexample. At a bound angle of 90 degrees, which is \<open>pi/2\<close> radians, the
  function does not fail: it returns the matrix, with a nonzero entry for the pair
  \<open>(0, 1)\<close>.
\<close>

theorem bound_angle_90_returns:
  "to_radians (Fin 90) = Fin (pi / 2) \<and>
   get_cosine_factor_original [Fin 0, Fin 500] [Fin 0, Fin 0] (Fin 40) (Fin 90) (Fin 1) =
     Inr [[Fin 0, Fin 1], [Fin 0, Fin 0]]"
proof -
  have len: "length [Fin 0, Fin 500] \<le> length [Fin 0, Fin (0::real)]" by simp
  from get_cosine_factor_original_entries [OF len, of "Fin 40" "Fin 90" "Fin 1"]
  obtain f where f: "get_cosine_factor_original [Fin 0, Fin 500] [Fin 0, Fin 0] (Fin 40) (Fin 90) (Fin 1) = Inr f"
    and l: "length f = 2" "\<forall>i<2. length (f ! i) = 2"
    and e: "\<forall>i<2. \<forall>j<2. f ! i ! j =
              cosine_factor_entry [Fin 0, Fin 500] [Fin 0, Fin 0] (Fin 40) (Fin 1)
                (to_radians (Fin 90)) (Fin pi / to_radians (Fin 90))
                (Fin pi / Fin 2 - to_radians (Fin 90)) i j (Fin 0)"
    by (auto simp: is_matrix_def)
  have "f ! 0 ! 0 = Fin 0" "f ! 0 ! 1 = Fin 1" "f ! 1 ! 0 = Fin 0" "f ! 1 ! 1 = Fin 0"
    using e
    by (simp_all add: cosine_factor_entry_def wake_theta_def wake_z_def to_radians_def
        minus_npfloat_def)
  then have "f = [[Fin 0, Fin 1], [Fin 0, Fin 0]]"
    using l by (intro list2_all_eqI)
  with f show ?thesis by (simp add: to_radians_def)
qed

lemma get_cosine_factor_original_pyfloat_zero:
  "get_cosine_factor_original_pyfloat X Y R0 (Fin 0) relaxationFactor = Inl ZeroDivisionError"
  by (simp add: get_cosine_factor_original_pyfloat_def to_radians_def)

lemma negative_angle_outside: "b < 0 \<Longrightarrow> \<not> (- Fin b < theta \<and> theta < Fin b)"
  by (cases theta) auto

lemma cosine_factor_entry_negative:
  assumes "b < 0"
  shows "cosine_factor_entry X Y R0 xi (Fin b) q g i j old = old"
  using negative_angle_outside [OF assms, of "wake_theta X Y (wake_z xi R0 g (Fin b)) i j"]
  by (auto simp: cosine_factor_entry_def)

text \<open>
  Claim C8, amended. The function does not validate the bound angle and raises no
  \<^verbatim>\<open>DomainError\<close>. When the bound angle in radians \<open>b\<close> is at most \<open>- 1e-300\<close> or at least
  \<open>pi/2\<close>, and \<open>Y\<close> is at least as long as \<open>X\<close>, the geometry loop runs and the function
  returns an \<open>n \<times> n\<close> matrix, for a float64 and for a Python float argument alike. No NaN
  reaches that matrix: every entry is a finite number between 0 and 1, and every entry
  is zero when \<open>b\<close> is negative. Nothing is said of an angle of zero or within \<open>1e-300\<close>
  below it, where the division by the angle raises \<^verbatim>\<open>ZeroDivisionError\<close> or gives an
  infinity.
\<close>

theorem bound_angle_not_validated:
  assumes len: "length X \<le> length Y"
    and b: "to_radians bound_angle = Fin b" "b \<le> - (1 / 10 ^ 300) \<or> pi / 2 \<le> b"
  shows "\<exists>f. get_cosine_factor_original X Y R0 bound_angle relaxationFactor = Inr f \<and>
           get_cosine_factor_original_pyfloat X Y R0 bound_angle relaxationFactor = Inr f \<and>
           length f = length X \<and>
           (\<forall>i<length X. length (f ! i) = length X \<and>
              (\<forall>j<length X. f ! i ! j \<noteq> NaN \<and>
                 (\<exists>v. f ! i ! j = Fin v \<and> 0 \<le> v \<and> v \<le> 1) \<and>
                 (b < 0 \<longrightarrow> f ! i ! j = Fin 0)))"
proof -
  from get_cosine_factor_original_entries [OF len, of R0 bound_angle relaxationFactor]
  obtain f where f: "get_cosine_factor_original X Y R0 bound_angle relaxationFactor = Inr f"
    and m: "is_matrix (length X) f"
    and e: "\<And>i j. i < length X \<Longrightarrow> j < length X \<Longrightarrow> f ! i ! j =
              cosine_factor_entry X Y R0 relaxationFactor (Fin b)
                (Fin pi / Fin b) (Fin pi / Fin 2 - Fin b) i j (Fin 0)"
    unfolding b(1) by blast
  have nz: "b \<noteq> 0"
  proof
    assume "b = 0"
    with b(2) have "(0 :: real) \<le> - (1 / 10 ^ 300) \<or> pi / 2 \<le> 0" by simp
    moreover have "\<not> (0 :: real) \<le> - (1 / 10 ^ 300)" by simp
    moreover have "\<not> pi / 2 \<le> 0" using pi_gt_zero by (simp add: not_le)
    ultimately show False by blast
  qed
  have py: "get_cosine_factor_original_pyfloat X Y R0 bound_angle relaxationFactor = Inr f"
    using f nz by (simp add: get_cosine_factor_original_pyfloat_def b(1))
  have "f ! i ! j \<noteq> NaN \<and> (\<exists>v. f ! i ! j = Fin v \<and> 0 \<le> v \<and> v \<le> 1) \<and>
        (b < 0 \<longrightarrow> f ! i ! j = Fin 0)"
    if ij: "i < length X" "j < length X" for i j
  proof -
    from cosine_factor_entry_range
    obtain v where "cosine_factor_entry X Y R0 relaxationFactor (Fin b)
                (Fin pi / Fin b) (Fin pi / Fin 2 - Fin b) i j (Fin 0) = Fin v" "0 \<le> v" "v \<le> 1"
      by blast
    then have r: "f ! i ! j \<noteq> NaN \<and> (\<exists>v. f ! i ! j = Fin v \<and> 0 \<le> v \<and> v \<le> 1)"
      unfolding e [OF ij] by simp
    have "f ! i ! j = Fin 0" if "b < 0"
      unfolding e [OF ij] by (rule cosine_factor_entry_negative [OF that])
    with r show ?thesis by blast
  qed
  with f py m show ?thesis
    by (auto simp: is_matrix_def)
qed

theorem bound_angle_not_validated_witness:
  "length [Fin 0, Fin 500] \<le> length [Fin 0, Fin 0] \<and>
   to_radians (Fin (- 20)) = Fin (- (pi / 9)) \<and> - (pi / 9) \<le> - (1 / 10 ^ 300) \<and>
   (\<exists>f. get_cosine_factor_original [Fin 0, Fin 500] [Fin 0, Fin 0] (Fin 40) (Fin (- 20)) (Fin 1)
          = Inr f \<and>
        get_cosine_factor_original_pyfloat [Fin 0, Fin 500] [Fin 0, Fin 0] (Fin 40) (Fin (- 20))
          (Fin 1) = Inr f \<and>
        length f = 2 \<and> length (f ! 0) = 2 \<and> f ! 0 ! 1 = Fin 0)"
proof -
  have len: "length [Fin 0, Fin 500] \<le> length [Fin 0, Fin 0]" by simp
  have rad: "to_radians (Fin (- 20)) = Fin (- (pi / 9))"
    by (simp add: to_radians_def)
  have "(1 :: real) / 10 ^ 300 \<le> 2 / 9" by simp
  also have "\<dots> \<le> pi / 9" using pi_ge_two by simp
  finally have small: "- (pi / 9) \<le> - (1 / 10 ^ 300)" by simp
  have neg: "- (pi / 9) < 0" by simp
  from bound_angle_not_validated [OF len rad disjI1 [OF small], of "Fin 40" "Fin 1"] neg
  have "\<exists>f. get_cosine_factor_original [Fin 0, Fin 500] [Fin 0, Fin 0] (Fin 40) (Fin (- 20)) (Fin 1)
          = Inr f \<and>
        get_cosine_factor_original_pyfloat [Fin 0, Fin 500] [Fin 0, Fin 0] (Fin 40) (Fin (- 20))
          (Fin 1) = Inr f \<and>
        length f = 2 \<and> length (f ! 0) = 2 \<and> f ! 0 ! 1 = Fin 0"
    by auto
  with len rad small show ?thesis by blast
qed

section \<open>A zero denominator in the angle\<close>

lemma to_radians_45: "to_radians (Fin 45) = Fin (pi / 4)"
  by (simp add: to_radians_def)

lemma sin_45_pos: "0 < sin (pi / 4)"
  by (simp add: sin_45)

lemma wake_z_45:
  "wake_z (Fin (- 1)) (Fin 1) (Fin pi / Fin 2 - to_radians (Fin 45)) (to_radians (Fin 45)) =
     Fin (- 1)"
  using sin_45_pos by (simp add: to_radians_def wake_z_def minus_npfloat_def)

text \<open>
  Claim C7, counterexample. With \<open>X = [0, 1]\<close>, \<open>Y = [0, 0]\<close>, \<open>R0 = 1\<close>, a bound angle of 45
  degrees and a relaxation factor of \<open>- 1\<close>, the offset \<open>z\<close> is \<open>- 1\<close> and
  \<open>X[1] - X[0] + z\<close> is zero. The quotient is \<open>0 / 0\<close>, and \<open>theta\<close> is NaN, not \<open>pi/2\<close> or
  \<open>- pi/2\<close>.
\<close>

theorem zero_denominator_theta_nan:
  "[Fin 0, Fin 1] ! 0 < [Fin 0, Fin 1] ! 1 \<and>
   [Fin 0, Fin 1] ! 1 - [Fin 0, Fin 1] ! 0 +
     wake_z (Fin (- 1)) (Fin 1) (Fin pi / Fin 2 - to_radians (Fin 45)) (to_radians (Fin 45)) = Fin 0 \<and>
   wake_theta [Fin 0, Fin 1] [Fin 0, Fin 0]
     (wake_z (Fin (- 1)) (Fin 1) (Fin pi / Fin 2 - to_radians (Fin 45)) (to_radians (Fin 45)))
     0 1 = NaN"
  unfolding wake_z_45 by (simp add: wake_theta_def minus_npfloat_def)

lemma theta_zero_denominator:
  assumes "X ! j - X ! i + z = Fin 0" "Y ! i = Fin ya" "Y ! j = Fin yb"
  shows "wake_theta X Y z i j =
           (if ya < yb then Fin (pi / 2) else if yb < ya then Fin (- (pi / 2)) else NaN)"
  using assms by (simp add: wake_theta_def minus_npfloat_def)

lemma outside_cone_half_pi:
  assumes "0 < b" "b \<le> pi / 2"
    and "theta = Fin (pi / 2) \<or> theta = Fin (- (pi / 2)) \<or> theta = NaN"
  shows "\<not> (- Fin b < theta \<and> theta < Fin b)"
  using assms by auto

text \<open>
  Claim C7, amended. For a pair with \<open>X[i] < X[j]\<close> and \<open>X[j] - X[i] + z\<close> exactly zero,
  finite \<open>Y[i]\<close> and \<open>Y[j]\<close>, and a bound angle in radians \<open>b\<close> with \<open>0 < b \<le> pi/2\<close>: the
  division does not abort the evaluation, which returns the matrix; \<open>theta\<close> is \<open>pi/2\<close>
  when \<open>Y[i] < Y[j]\<close>, \<open>- pi/2\<close> when \<open>Y[j] < Y[i]\<close> and NaN when \<open>Y[i] = Y[j]\<close>; in each
  case \<open>- b < theta < b\<close> fails and \<open>f[i][j]\<close> is zero.
\<close>

theorem zero_denominator_boundary:
  assumes len: "length X \<le> length Y" and ij: "i < length X" "j < length X"
    and up: "X ! i < X ! j"
    and b: "to_radians bound_angle = Fin b" "0 < b" "b \<le> pi / 2"
    and z: "z = wake_z relaxationFactor R0 (Fin pi / Fin 2 - to_radians bound_angle)
                  (to_radians bound_angle)"
    and den: "X ! j - X ! i + z = Fin 0"
    and Y: "Y ! i = Fin ya" "Y ! j = Fin yb"
  shows "\<exists>f. get_cosine_factor_original X Y R0 bound_angle relaxationFactor = Inr f \<and>
           wake_theta X Y z i j =
             (if ya < yb then Fin (pi / 2) else if yb < ya then Fin (- (pi / 2)) else NaN) \<and>
           \<not> (- Fin b < wake_theta X Y z i j \<and> wake_theta X Y z i j < Fin b) \<and>
           f ! i ! j = Fin 0"
proof -
  from get_cosine_factor_original_entries [OF len, of R0 bound_angle relaxationFactor]
  obtain f where f: "get_cosine_factor_original X Y R0 bound_angle relaxationFactor = Inr f"
    and e: "f ! i ! j =
              cosine_factor_entry X Y R0 relaxationFactor (to_radians bound_angle)
                (Fin pi / to_radians bound_angle) (Fin pi / Fin 2 - to_radians bound_angle)
                i j (Fin 0)"
    using ij by blast
  have th: "wake_theta X Y z i j =
             (if ya < yb then Fin (pi / 2) else if yb < ya then Fin (- (pi / 2)) else NaN)"
    by (rule theta_zero_denominator [OF den Y])
  have out: "\<not> (- Fin b < wake_theta X Y z i j \<and> wake_theta X Y z i j < Fin b)"
    by (rule outside_cone_half_pi [OF b(2,3)]) (simp add: th)
  have "f ! i ! j = Fin 0"
    using out unfolding e cosine_factor_entry_def z b(1) by auto
  with f th out show ?thesis by blast
qed

theorem zero_denominator_boundary_witness:
  "[Fin 0, Fin 1] ! 0 < [Fin 0, Fin 1] ! 1 \<and>
   [Fin 0, Fin 1] ! 1 - [Fin 0, Fin 1] ! 0 +
     wake_z (Fin (- 1)) (Fin 1) (Fin pi / Fin 2 - to_radians (Fin 45)) (to_radians (Fin 45)) = Fin 0 \<and>
   (\<exists>f. get_cosine_factor_original [Fin 0, Fin 1] [Fin 0, Fin 3] (Fin 1) (Fin 45) (Fin (- 1)) = Inr f \<and>
       wake_theta [Fin 0, Fin 1] [Fin 0, Fin 3] (Fin (- 1)) 0 1 = Fin (pi / 2) \<and>
       f ! 0 ! 1 = Fin 0)"
proof -
  have z: "Fin (- 1) = wake_z (Fin (- 1)) (Fin 1) (Fin pi / Fin 2 - to_radians (Fin 45))
                  (to_radians (Fin 45))"
    unfolding wake_z_45 by simp
  have "\<exists>f. get_cosine_factor_original [Fin 0, Fin 1] [Fin 0, Fin 3] (Fin 1) (Fin 45) (Fin (- 1)) = Inr f \<and>
           wake_theta [Fin 0, Fin 1] [Fin 0, Fin 3] (Fin (- 1)) 0 1 =
             (if (0::real) < 3 then Fin (pi / 2) else if (3::real) < 0 then Fin (- (pi / 2)) else NaN) \<and>
           \<not> (- Fin (pi / 4) < wake_theta [Fin 0, Fin 1] [Fin 0, Fin 3] (Fin (- 1)) 0 1 \<and>
              wake_theta [Fin 0, Fin 1] [Fin 0, Fin 3] (Fin (- 1)) 0 1 < Fin (pi / 4)) \<and>
           f ! 0 ! 1 = Fin 0"
    by (rule zero_denominator_boundary [OF _ _ _ _ to_radians_45 _ _ z])
      (simp_all add: minus_npfloat_def)
  then show ?thesis
    unfolding wake_z_45 by (auto simp: minus_npfloat_def)
qed

section \<open>The relaxation factor\<close>

lemma wake_z_finite:
  assumes "sin b \<noteq> 0"
  shows "wake_z (Fin xi) (Fin R0) (Fin pi / Fin 2 - Fin b) (Fin b) =
           Fin (xi * R0 * sin (pi / 2 - b) / sin b)"
  using assms by (simp add: wake_z_def minus_npfloat_def)

lemma wake_theta_finite:
  assumes "X ! i = Fin xa" "X ! j = Fin xb" "Y ! i = Fin ya" "Y ! j = Fin yb"
    and "xb - xa + z \<noteq> 0"
  shows "wake_theta X Y (Fin z) i j = Fin (arctan ((yb - ya) / (xb - xa + z)))"
  using assms by (simp add: wake_theta_def minus_npfloat_def)





section \<open>The range of the cosine factor\<close>

lemma to_radians_inverse: "to_radians (Fin (1 / c)) = Fin (pi / (180 * c))"
  by (simp add: to_radians_def)

lemma small_angle_bounds:
  assumes "1 \<le> c"
  shows "0 < pi / (180 * c)" "pi / (180 * c) < pi / 2"
proof -
  show "0 < pi / (180 * c)" using assms by simp
  have "pi / (180 * c) \<le> pi / (180 * 1)"
    using assms by (intro divide_left_mono mult_left_mono) simp_all
  also have "\<dots> < pi / 2" by simp
  finally show "pi / (180 * c) < pi / 2" .
qed

lemma q_of_small_angle:
  assumes "0 < c"
  shows "Fin pi / Fin (pi / (180 * c)) = Fin (180 * c)"
  using assms by simp

lemma above_largest_float64: "(2 :: real) ^ 1024 - 2 ^ 971 < 180 * 10 ^ 306"
  by simp

text \<open>
  Claim C3. At a bound angle of \<open>1e-306\<close> degrees, which is inside \<open>(0, 90)\<close>, the exact
  quotient \<open>pi / b\<close> is \<open>1.8e308\<close>, above the largest float64 value, so \<^verbatim>\<open>q\<close> is an
  infinity in the program. With this value of \<^verbatim>\<open>q\<close> the loop body, at the aligned
  pair \<open>(0, 1)\<close> of \<open>X = [0, 500]\<close>, \<open>Y = [0, 0]\<close>, finds \<open>theta = 0\<close> inside the cone and
  stores \<open>(1 + cos (inf * 0)) / 2\<close>, which is NaN: an entry that is not in \<open>[0, 1]\<close>.
\<close>

theorem cosine_factor_nan_at_overflow:
  "to_radians (Fin (1 / 10 ^ 306)) = Fin (pi / (180 * 10 ^ 306)) \<and>
   Fin pi / to_radians (Fin (1 / 10 ^ 306)) = Fin (180 * 10 ^ 306) \<and>
   (2 :: real) ^ 1024 - 2 ^ 971 < 180 * 10 ^ 306 \<and>
   cosine_factor_body [Fin 0, Fin 500] [Fin 0, Fin 0] (Fin 40) (Fin 1)
     (to_radians (Fin (1 / 10 ^ 306))) PInf
     (Fin pi / Fin 2 - to_radians (Fin (1 / 10 ^ 306))) 0 1
     [[Fin 0, Fin 0], [Fin 0, Fin 0]] =
   Inr [[Fin 0, NaN], [Fin 0, Fin 0]]"
proof -
  define c :: real where "c = 10 ^ 306"
  define b :: real where "b = pi / (180 * c)"
  have c: "1 \<le> c" by (simp add: c_def)
  have b: "0 < b" "b < pi / 2"
    using small_angle_bounds [OF c] by (simp_all add: b_def)
  have rad: "to_radians (Fin (1 / c)) = Fin b"
    unfolding b_def by (rule to_radians_inverse)
  have q: "Fin pi / Fin b = Fin (180 * c)"
    unfolding b_def using c by (intro q_of_small_angle) simp
  have big: "(2 :: real) ^ 1024 - 2 ^ 971 < 180 * c"
    unfolding c_def by (rule above_largest_float64)
  have sb: "0 < sin b"
    using b pi_gt_zero by (intro sin_gt_zero) simp_all
  have sg: "0 < sin (pi / 2 - b)"
    using b pi_gt_zero by (intro sin_gt_zero) simp_all
  have z: "wake_z (Fin 1) (Fin 40) (Fin pi / Fin 2 - Fin b) (Fin b) =
             Fin (1 * 40 * sin (pi / 2 - b) / sin b)"
    using sb by (intro wake_z_finite) simp
  have zpos: "0 < 1 * 40 * sin (pi / 2 - b) / sin b"
    using sb sg by simp
  have theta: "wake_theta [Fin 0, Fin 500] [Fin 0, Fin 0]
                 (Fin (1 * 40 * sin (pi / 2 - b) / sin b)) 0 1 = Fin 0"
    using wake_theta_finite [of "[Fin 0, Fin 500]" 0 0 1 500 "[Fin 0, Fin 0]" 0 0
        "1 * 40 * sin (pi / 2 - b) / sin b"] zpos
    by simp
  have "cosine_factor_body [Fin 0, Fin 500] [Fin 0, Fin 0] (Fin 40) (Fin 1)
     (Fin b) PInf (Fin pi / Fin 2 - Fin b) 0 1 [[Fin 0, Fin 0], [Fin 0, Fin 0]] =
   Inr [[Fin 0, NaN], [Fin 0, Fin 0]]"
    unfolding cosine_factor_body_def z theta Let_def using b(1) by simp
  with rad q big have "to_radians (Fin (1 / c)) = Fin (pi / (180 * c)) \<and>
   Fin pi / to_radians (Fin (1 / c)) = Fin (180 * c) \<and>
   (2 :: real) ^ 1024 - 2 ^ 971 < 180 * c \<and>
   cosine_factor_body [Fin 0, Fin 500] [Fin 0, Fin 0] (Fin 40) (Fin 1)
     (to_radians (Fin (1 / c))) PInf
     (Fin pi / Fin 2 - to_radians (Fin (1 / c))) 0 1
     [[Fin 0, Fin 0], [Fin 0, Fin 0]] =
   Inr [[Fin 0, NaN], [Fin 0, Fin 0]]"
    by (simp only: b_def)
  then show ?thesis
    unfolding c_def .
qed

section \<open>The loops of \<^verbatim>\<open>JensenCosine.solve_nonlinear\<close>\<close>

lemma loss_term_idem:
  "loss_term Xw a r alpha f i j (loss_term Xw a r alpha f i j old) =
   loss_term Xw a r alpha f i j old"
  by (simp add: loss_term_def)

lemma loss_body_eq:
  assumes "i < length Xw" "j < length Xw" "j < length a" "j < length r"
    "j < length f" "i < length (f ! j)" "j < length loss"
  shows "loss_body Xw a r alpha f i j loss =
           Inr (loss[j := loss_term Xw a r alpha f i j (loss ! j)])"
  using assms by (simp add: loss_body_def loss_term_def Let_def)

lemma loss_inner_loop:
  assumes i: "i < length Xw" and n: "n \<le> length Xw" "n \<le> length a" "n \<le> length r"
    and f: "is_matrix (length Xw) f"
  shows "for_range [0..<n] (loss_body Xw a r alpha f i) (replicate n (Fin 0)) =
           Inr (map (\<lambda>j. loss_term Xw a r alpha f i j (Fin 0)) [0..<n])"
proof -
  define Inv where "Inv d loss \<longleftrightarrow> length loss = n \<and>
      (\<forall>j<n. loss ! j = (if j \<in> set d then loss_term Xw a r alpha f i j (Fin 0) else Fin 0))"
    for d loss
  have start: "Inv [] (replicate n (Fin 0))"
    by (simp add: Inv_def)
  have step: "\<exists>s'. loss_body Xw a r alpha f i k s = Inr s' \<and> Inv (d @ [k]) s'"
    if k: "k \<in> set [0..<n]" and inv: "Inv d s" for k d s
  proof -
    from k have kn: "k < n" by simp
    from inv have l: "length s = n" by (simp add: Inv_def)
    have kf: "k < length f" "i < length (f ! k)"
      using f kn n(1) i by (auto simp: is_matrix_def)
    have b: "loss_body Xw a r alpha f i k s =
               Inr (s[k := loss_term Xw a r alpha f i k (s ! k)])"
      using kn n l kf by (intro loss_body_eq i) simp_all
    have "Inv (d @ [k]) (s[k := loss_term Xw a r alpha f i k (s ! k)])"
      using inv kn by (auto simp: Inv_def nth_list_update loss_term_idem)
    with b show ?thesis by blast
  qed
  have "\<exists>s'. for_range [0..<n] (loss_body Xw a r alpha f i) (replicate n (Fin 0)) = Inr s' \<and>
          Inv ([] @ [0..<n]) s'"
    by (rule for_range_invariant [where Inv = Inv, OF start]) (rule step)
  then obtain s' where s': "for_range [0..<n] (loss_body Xw a r alpha f i) (replicate n (Fin 0)) = Inr s'"
    "Inv [0..<n] s'" by auto
  have "s' = map (\<lambda>j. loss_term Xw a r alpha f i j (Fin 0)) [0..<n]"
    using s'(2) by (intro nth_equalityI) (auto simp: Inv_def)
  with s'(1) show ?thesis by simp
qed

lemma hub_body_eq:
  assumes i: "i < n" and n: "n \<le> length Xw" "n \<le> length a" "n \<le> length r"
    and f: "is_matrix (length Xw) f" and st: "length (fst st) = n"
  shows "hub_body n Xw a r alpha windSpeed f i st =
           Inr (map (\<lambda>j. loss_term Xw a r alpha f i j (Fin 0)) [0..<n],
                (snd st)[i := hub_value n Xw a r alpha windSpeed f i])"
proof -
  have "i < length Xw" using i n(1) by simp
  from loss_inner_loop [OF this n f, of alpha]
  show ?thesis
    by (simp add: hub_body_def st hub_value_def Let_def)
qed

lemma hub_outer_loop:
  assumes n: "n \<le> length Xw" "n \<le> length a" "n \<le> length r"
    and f: "is_matrix (length Xw) f"
  shows "\<exists>st. for_range [0..<n] (hub_body n Xw a r alpha windSpeed f)
                (replicate n (Fin 0), replicate n (Fin 0)) = Inr st \<and>
              snd st = map (hub_value n Xw a r alpha windSpeed f) [0..<n]"
proof -
  define Inv where "Inv d st \<longleftrightarrow> length (fst st) = n \<and> length (snd st) = n \<and>
      (\<forall>k<n. snd st ! k = (if k \<in> set d then hub_value n Xw a r alpha windSpeed f k else Fin 0))"
    for d and st :: "npfloat list \<times> npfloat list"
  have start: "Inv [] (replicate n (Fin 0), replicate n (Fin 0))"
    by (simp add: Inv_def)
  have step: "\<exists>s'. hub_body n Xw a r alpha windSpeed f k s = Inr s' \<and> Inv (d @ [k]) s'"
    if k: "k \<in> set [0..<n]" and inv: "Inv d s" for k d s
  proof -
    from k have kn: "k < n" by simp
    from inv have l: "length (fst s) = n" by (simp add: Inv_def)
    note b = hub_body_eq [OF kn n f l, of alpha windSpeed]
    have "Inv (d @ [k]) (map (\<lambda>j. loss_term Xw a r alpha f k j (Fin 0)) [0..<n],
                (snd s)[k := hub_value n Xw a r alpha windSpeed f k])"
      using inv kn by (auto simp: Inv_def nth_list_update)
    with b show ?thesis by blast
  qed
  have "\<exists>s'. for_range [0..<n] (hub_body n Xw a r alpha windSpeed f)
                (replicate n (Fin 0), replicate n (Fin 0)) = Inr s' \<and> Inv ([] @ [0..<n]) s'"
    by (rule for_range_invariant [where Inv = Inv, OF start]) (rule step)
  then obtain s' where s': "for_range [0..<n] (hub_body n Xw a r alpha windSpeed f)
                (replicate n (Fin 0), replicate n (Fin 0)) = Inr s'" "Inv [0..<n] s'" by auto
  have "snd s' = map (hub_value n Xw a r alpha windSpeed f) [0..<n]"
    using s'(2) by (intro nth_equalityI) (auto simp: Inv_def)
  with s'(1) show ?thesis by blast
qed

lemma JensenCosine_solve_nonlinear_eq:
  assumes "well_formed self p"
  shows "\<exists>f. get_cosine_factor_original (turbineXw p) (turbineYw p)
                (Fin 0.5 * rotorDiameter p ! 0 * radius_multiplier self)
                (model_params_spread_angle p) (model_params_relaxationFactor p) = Inr f \<and>
              is_matrix (length (turbineXw p)) f \<and>
              JensenCosine_solve_nonlinear self p =
                Inr (map (hub_value (nTurbines self) (turbineXw p) (axialInduction p)
                            (map (\<lambda>d. Fin 0.5 * d) (rotorDiameter p)) (model_params_alpha p)
                            (wind_speed p) f)
                       [0..<nTurbines self])"
proof -
  from assms have wf: "0 < length (rotorDiameter p)" "nTurbines self \<le> length (turbineXw p)"
    "length (turbineXw p) \<le> length (turbineYw p)" "nTurbines self \<le> length (rotorDiameter p)"
    "nTurbines self \<le> length (axialInduction p)"
    by (simp_all add: well_formed_def)
  have r0: "map (\<lambda>d. Fin 0.5 * d) (rotorDiameter p) ! 0 = Fin 0.5 * rotorDiameter p ! 0"
    using wf(1) by simp
  from get_cosine_factor_original_entries [OF wf(3)]
  obtain f where f: "get_cosine_factor_original (turbineXw p) (turbineYw p)
                (Fin 0.5 * rotorDiameter p ! 0 * radius_multiplier self)
                (model_params_spread_angle p) (model_params_relaxationFactor p) = Inr f"
    "is_matrix (length (turbineXw p)) f"
    by blast
  have nr: "nTurbines self \<le> length (map (\<lambda>d. Fin 0.5 * d) (rotorDiameter p))"
    using wf(4) by simp
  from hub_outer_loop [OF wf(2) wf(5) nr f(2), of "model_params_alpha p" "wind_speed p"]
  obtain st where st: "for_range [0..<nTurbines self]
         (hub_body (nTurbines self) (turbineXw p) (axialInduction p)
            (map (\<lambda>d. Fin 0.5 * d) (rotorDiameter p)) (model_params_alpha p) (wind_speed p) f)
         (replicate (nTurbines self) (Fin 0), replicate (nTurbines self) (Fin 0)) = Inr st"
    "snd st = map (hub_value (nTurbines self) (turbineXw p) (axialInduction p)
                            (map (\<lambda>d. Fin 0.5 * d) (rotorDiameter p)) (model_params_alpha p)
                            (wind_speed p) f) [0..<nTurbines self]"
    by blast
  have "JensenCosine_solve_nonlinear self p = Inr (snd st)"
    using wf(1) f(1) st(1) by (simp add: JensenCosine_solve_nonlinear_def Let_def r0)
  with f st(2) show ?thesis by auto
qed

section \<open>The hub velocity of the cosine variant\<close>

lemma upt_2: "[0..<2] = [0, Suc 0]"
  by (simp add: upt_rec)

lemma sqrt_scenario_A: "sqrt (1024 / 59049) = 32 / 243"
  by (rule real_sqrt_unique) (simp_all add: power2_eq_square)

lemma well_formed_scenario_A: "well_formed two_turbines (scenario_A a)"
  by (simp add: well_formed_def two_turbines_def scenario_A_def)

text \<open>
  Claim C1. On an input that reads no array beyond its length, the cosine variant returns
  the vector whose entry \<open>i\<close> is \<open>(1 - sqrt (sum of loss[j])) * windSpeed\<close>, where
  \<open>loss[j]\<close> is \<open>(2 * a[j] * (f[j][i] * r[j] / (r[j] + alpha * dx))\<^sup>2)\<^sup>2\<close> for every \<open>j\<close>
  with \<open>dx = X[i] - X[j] > 0\<close> and zero for every other \<open>j\<close>; \<open>f\<close> is the cosine-factor
  matrix and \<open>r[j]\<close> is half of the rotor diameter.
\<close>

theorem cosine_hub_velocity:
  assumes "well_formed self p"
  shows "\<exists>f hubVelocity.
           get_cosine_factor_original (turbineXw p) (turbineYw p)
             (Fin 0.5 * rotorDiameter p ! 0 * radius_multiplier self)
             (model_params_spread_angle p) (model_params_relaxationFactor p) = Inr f \<and>
           JensenCosine_solve_nonlinear self p = Inr hubVelocity \<and>
           length hubVelocity = nTurbines self \<and>
           (\<forall>i<nTurbines self.
              hubVelocity ! i =
                (Fin 1 - np_sqrt (np_sum (map (\<lambda>j.
                    let dx = turbineXw p ! i - turbineXw p ! j;
                        r = Fin 0.5 * rotorDiameter p ! j
                    in if dx > Fin 0
                       then np_square (Fin 2 * axialInduction p ! j *
                              np_square (f ! j ! i * r / (r + model_params_alpha p * dx)))
                       else Fin 0) [0..<nTurbines self]))) * wind_speed p)"
proof -
  from JensenCosine_solve_nonlinear_eq [OF assms]
  obtain f where f: "get_cosine_factor_original (turbineXw p) (turbineYw p)
                (Fin 0.5 * rotorDiameter p ! 0 * radius_multiplier self)
                (model_params_spread_angle p) (model_params_relaxationFactor p) = Inr f"
    and hv: "JensenCosine_solve_nonlinear self p =
                Inr (map (hub_value (nTurbines self) (turbineXw p) (axialInduction p)
                            (map (\<lambda>d. Fin 0.5 * d) (rotorDiameter p)) (model_params_alpha p)
                            (wind_speed p) f)
                       [0..<nTurbines self])"
    by blast
  from assms have nr: "nTurbines self \<le> length (rotorDiameter p)"
    by (simp add: well_formed_def)
  have terms: "map (\<lambda>j. loss_term (turbineXw p) (axialInduction p)
                   (map (\<lambda>d. Fin 0.5 * d) (rotorDiameter p)) (model_params_alpha p) f i j (Fin 0))
                 [0..<nTurbines self] =
               map (\<lambda>j.
                    let dx = turbineXw p ! i - turbineXw p ! j;
                        r = Fin 0.5 * rotorDiameter p ! j
                    in if dx > Fin 0
                       then np_square (Fin 2 * axialInduction p ! j *
                              np_square (f ! j ! i * r / (r + model_params_alpha p * dx)))
                       else Fin 0) [0..<nTurbines self]" for i
    using nr by (intro map_cong refl) (simp add: loss_term_def Let_def)
  show ?thesis
  proof (intro exI conjI allI impI)
    show "get_cosine_factor_original (turbineXw p) (turbineYw p)
                (Fin 0.5 * rotorDiameter p ! 0 * radius_multiplier self)
                (model_params_spread_angle p) (model_params_relaxationFactor p) = Inr f"
      by (rule f)
    show "JensenCosine_solve_nonlinear self p =
                Inr (map (hub_value (nTurbines self) (turbineXw p) (axialInduction p)
                            (map (\<lambda>d. Fin 0.5 * d) (rotorDiameter p)) (model_params_alpha p)
                            (wind_speed p) f)
                       [0..<nTurbines self])"
      by (rule hv)
    show "length (map (hub_value (nTurbines self) (turbineXw p) (axialInduction p)
                            (map (\<lambda>d. Fin 0.5 * d) (rotorDiameter p)) (model_params_alpha p)
                            (wind_speed p) f)
                       [0..<nTurbines self]) = nTurbines self"
      by simp
    fix i assume "i < nTurbines self"
    then have "map (hub_value (nTurbines self) (turbineXw p) (axialInduction p)
                  (map (\<lambda>d. Fin 0.5 * d) (rotorDiameter p)) (model_params_alpha p)
                  (wind_speed p) f) [0..<nTurbines self] ! i =
               hub_value (nTurbines self) (turbineXw p) (axialInduction p)
                  (map (\<lambda>d. Fin 0.5 * d) (rotorDiameter p)) (model_params_alpha p)
                  (wind_speed p) f i"
      by simp
    then show "map (hub_value (nTurbines self) (turbineXw p) (axialInduction p)
                  (map (\<lambda>d. Fin 0.5 * d) (rotorDiameter p)) (model_params_alpha p)
                  (wind_speed p) f) [0..<nTurbines self] ! i =
                (Fin 1 - np_sqrt (np_sum (map (\<lambda>j.
                    let dx = turbineXw p ! i - turbineXw p ! j;
                        r = Fin 0.5 * rotorDiameter p ! j
                    in if dx > Fin 0
                       then np_square (Fin 2 * axialInduction p ! j *
                              np_square (f ! j ! i * r / (r + model_params_alpha p * dx)))
                       else Fin 0) [0..<nTurbines self]))) * wind_speed p"
      unfolding hub_value_def terms .
  qed
qed

theorem cosine_hub_velocity_witness:
  "well_formed two_turbines (scenario_A (Fin (1 / 3))) \<and>
   JensenCosine_solve_nonlinear two_turbines (scenario_A (Fin (1 / 3))) =
     Inr [Fin 8, Fin (1688 / 243)]"
proof -
  note wf = well_formed_scenario_A [of "Fin (1 / 3)"]
  have "\<exists>f hv. get_cosine_factor_original [Fin 0, Fin 500] [Fin 0, Fin 0]
             (Fin 40) (Fin 20) (Fin 1) = Inr f \<and>
     JensenCosine_solve_nonlinear two_turbines (scenario_A (Fin (1 / 3))) = Inr hv \<and>
     length hv = 2 \<and>
     (\<forall>i<2. hv ! i =
                (Fin 1 - np_sqrt (np_sum (map (\<lambda>j.
                    let dx = [Fin 0, Fin 500] ! i - [Fin 0, Fin 500] ! j;
                        r = Fin 0.5 * [Fin 80, Fin 80] ! j
                    in if dx > Fin 0
                       then np_square (Fin 2 * [Fin (1 / 3), Fin (1 / 3)] ! j *
                              np_square (f ! j ! i * r / (r + Fin 0.1 * dx)))
                       else Fin 0) [0..<2]))) * Fin 8)"
    using cosine_hub_velocity [OF wf]
    by (simp add: two_turbines_def scenario_A_def cong: if_cong)
  then obtain f hv where f: "get_cosine_factor_original [Fin 0, Fin 500] [Fin 0, Fin 0]
             (Fin 40) (Fin 20) (Fin 1) = Inr f"
    and hv: "JensenCosine_solve_nonlinear two_turbines (scenario_A (Fin (1 / 3))) = Inr hv"
    and l: "length hv = 2"
    and e: "\<forall>i<2. hv ! i =
                (Fin 1 - np_sqrt (np_sum (map (\<lambda>j.
                    let dx = [Fin 0, Fin 500] ! i - [Fin 0, Fin 500] ! j;
                        r = Fin 0.5 * [Fin 80, Fin 80] ! j
                    in if dx > Fin 0
                       then np_square (Fin 2 * [Fin (1 / 3), Fin (1 / 3)] ! j *
                              np_square (f ! j ! i * r / (r + Fin 0.1 * dx)))
                       else Fin 0) [0..<2]))) * Fin 8"
    by blast
  have "f = [[Fin 0, Fin 1], [Fin 0, Fin 0]]"
    using f scenario_A_factor by simp
  then have "hv ! 0 = Fin 8" "hv ! 1 = Fin (1688 / 243)"
    using e by (simp_all add: upt_2 np_sum_def np_square_def minus_npfloat_def sqrt_scenario_A)
  then have "hv = [Fin 8, Fin (1688 / 243)]"
    using l by (intro list2_eqI) simp_all
  with hv wf show ?thesis by simp
qed

section \<open>Turbines without an upstream neighbour\<close>

lemma npfloat_diff_pos: "(x - y > Fin 0) = (y < (x :: npfloat))"
  by (cases x; cases y) (auto simp: minus_npfloat_def)

lemma npfloat_one_times: "Fin 1 * v = v"
  by (cases v) auto

lemma np_sum_zeros: "np_sum (map (\<lambda>j. Fin 0) xs) = Fin 0"
  by (induction xs) (auto simp: np_sum_def)

text \<open>
  Claim C4. A turbine \<open>i\<close> with no upstream neighbour, that is with no \<open>j\<close> such that
  \<open>X[j] < X[i]\<close>, has every \<open>loss[j]\<close> zero, a total loss of zero, and its output velocity
  is the freestream speed itself.
\<close>

theorem no_upstream_freestream:
  assumes wf: "well_formed self p" and i: "i < nTurbines self"
    and none: "\<forall>j<nTurbines self. \<not> turbineXw p ! j < turbineXw p ! i"
  shows "\<exists>f hubVelocity.
           get_cosine_factor_original (turbineXw p) (turbineYw p)
             (Fin 0.5 * rotorDiameter p ! 0 * radius_multiplier self)
             (model_params_spread_angle p) (model_params_relaxationFactor p) = Inr f \<and>
           JensenCosine_solve_nonlinear self p = Inr hubVelocity \<and>
           np_sqrt (np_sum (map (\<lambda>j. loss_term (turbineXw p) (axialInduction p)
                      (map (\<lambda>d. Fin 0.5 * d) (rotorDiameter p)) (model_params_alpha p)
                      f i j (Fin 0)) [0..<nTurbines self])) = Fin 0 \<and>
           hubVelocity ! i = wind_speed p"
proof -
  from JensenCosine_solve_nonlinear_eq [OF wf]
  obtain f where f: "get_cosine_factor_original (turbineXw p) (turbineYw p)
                (Fin 0.5 * rotorDiameter p ! 0 * radius_multiplier self)
                (model_params_spread_angle p) (model_params_relaxationFactor p) = Inr f"
    and hv: "JensenCosine_solve_nonlinear self p =
                Inr (map (hub_value (nTurbines self) (turbineXw p) (axialInduction p)
                            (map (\<lambda>d. Fin 0.5 * d) (rotorDiameter p)) (model_params_alpha p)
                            (wind_speed p) f)
                       [0..<nTurbines self])"
    by blast
  have terms: "map (\<lambda>j. loss_term (turbineXw p) (axialInduction p)
                   (map (\<lambda>d. Fin 0.5 * d) (rotorDiameter p)) (model_params_alpha p) f i j (Fin 0))
                 [0..<nTurbines self] = map (\<lambda>j. Fin 0) [0..<nTurbines self]"
    using none by (intro map_cong refl) (simp add: loss_term_def npfloat_diff_pos)
  have total: "np_sqrt (np_sum (map (\<lambda>j. loss_term (turbineXw p) (axialInduction p)
                      (map (\<lambda>d. Fin 0.5 * d) (rotorDiameter p)) (model_params_alpha p)
                      f i j (Fin 0)) [0..<nTurbines self])) = Fin 0"
    unfolding terms np_sum_zeros by simp
  have "hub_value (nTurbines self) (turbineXw p) (axialInduction p)
          (map (\<lambda>d. Fin 0.5 * d) (rotorDiameter p)) (model_params_alpha p) (wind_speed p) f i =
        wind_speed p"
    unfolding hub_value_def total by (simp add: minus_npfloat_def npfloat_one_times)
  then have "map (hub_value (nTurbines self) (turbineXw p) (axialInduction p)
                  (map (\<lambda>d. Fin 0.5 * d) (rotorDiameter p)) (model_params_alpha p)
                  (wind_speed p) f) [0..<nTurbines self] ! i = wind_speed p"
    using i by simp
  with f hv total show ?thesis by blast
qed

theorem no_upstream_freestream_witness:
  "well_formed two_turbines (scenario_A (Fin (1 / 3))) \<and> 0 < nTurbines two_turbines \<and>
   \<not> turbineXw (scenario_A (Fin (1 / 3))) ! 0 < turbineXw (scenario_A (Fin (1 / 3))) ! 0 \<and>
   \<not> turbineXw (scenario_A (Fin (1 / 3))) ! 1 < turbineXw (scenario_A (Fin (1 / 3))) ! 0 \<and>
   (\<exists>hubVelocity.
      JensenCosine_solve_nonlinear two_turbines (scenario_A (Fin (1 / 3))) = Inr hubVelocity \<and>
      hubVelocity ! 0 = Fin 8)"
proof -
  note wf = well_formed_scenario_A [of "Fin (1 / 3)"]
  have i: "0 < nTurbines two_turbines" by (simp add: two_turbines_def)
  have none: "\<forall>j<nTurbines two_turbines.
      \<not> turbineXw (scenario_A (Fin (1 / 3))) ! j < turbineXw (scenario_A (Fin (1 / 3))) ! 0"
    by (simp add: two_turbines_def scenario_A_def less_Suc_eq numeral_2_eq_2)
  from no_upstream_freestream [OF wf i none]
  have "\<exists>hubVelocity.
      JensenCosine_solve_nonlinear two_turbines (scenario_A (Fin (1 / 3))) = Inr hubVelocity \<and>
      hubVelocity ! 0 = Fin 8"
    by (auto simp: scenario_A_def)
  moreover have "\<not> turbineXw (scenario_A (Fin (1 / 3))) ! 0 < turbineXw (scenario_A (Fin (1 / 3))) ! 0"
    "\<not> turbineXw (scenario_A (Fin (1 / 3))) ! 1 < turbineXw (scenario_A (Fin (1 / 3))) ! 0"
    by (simp_all add: scenario_A_def)
  ultimately show ?thesis using wf i by blast
qed

section \<open>A total loss above one\<close>

lemma close_pair_factor:
  "get_cosine_factor_original [Fin 0, Fin 1] [Fin 0, Fin 0] (Fin 40) (Fin 20) (Fin 1) =
     Inr [[Fin 0, Fin 1], [Fin 0, Fin 0]]"
proof -
  have len: "length [Fin 0, Fin 1] \<le> length [Fin 0, Fin (0::real)]" by simp
  from get_cosine_factor_original_entries [OF len, of "Fin 40" "Fin 20" "Fin 1"]
  obtain f where f: "get_cosine_factor_original [Fin 0, Fin 1] [Fin 0, Fin 0] (Fin 40) (Fin 20) (Fin 1) = Inr f"
    and l: "length f = 2" "\<forall>i<2. length (f ! i) = 2"
    and e: "\<forall>i<2. \<forall>j<2. f ! i ! j =
              cosine_factor_entry [Fin 0, Fin 1] [Fin 0, Fin 0] (Fin 40) (Fin 1)
                (to_radians (Fin 20)) (Fin pi / to_radians (Fin 20))
                (Fin pi / Fin 2 - to_radians (Fin 20)) i j (Fin 0)"
    by (auto simp: is_matrix_def)
  have "0 < 40 * sin (7 * pi / 18) / sin (pi / 9)"
    using sin_20_pos sin_70_pos by simp
  then have z: "1 + 40 * sin (7 * pi / 18) / sin (pi / 9) \<noteq> 0"
    by linarith
  have "f ! 0 ! 0 = Fin 0" "f ! 0 ! 1 = Fin 1" "f ! 1 ! 0 = Fin 0" "f ! 1 ! 1 = Fin 0"
    using e sin_20_pos z
    by (simp_all add: cosine_factor_entry_def wake_theta_def wake_z_def to_radians_def
        minus_npfloat_def)
  then have "f = [[Fin 0, Fin 1], [Fin 0, Fin 0]]"
    using l by (intro list2_all_eqI)
  with f show ?thesis by simp
qed

lemma sqrt_close_pair: "sqrt (82944000000 / 25856961601) = 288000 / 160801"
  by (rule real_sqrt_unique) (simp_all add: power2_eq_square)

lemma well_formed_close_pair: "well_formed two_turbines close_pair"
  by (simp add: well_formed_def two_turbines_def close_pair_def)

lemma close_pair_total:
  "np_sqrt (np_sum (map (\<lambda>j. loss_term (turbineXw close_pair) (axialInduction close_pair)
       (map (\<lambda>d. Fin 0.5 * d) (rotorDiameter close_pair)) (model_params_alpha close_pair)
       [[Fin 0, Fin 1], [Fin 0, Fin 0]] 1 j (Fin 0)) [0..<nTurbines two_turbines])) =
   Fin (288000 / 160801)"
  by (simp add: close_pair_def two_turbines_def upt_2 loss_term_def np_sum_def np_square_def
      minus_npfloat_def sqrt_close_pair)

text \<open>
  Claim C6. The total loss is not clamped. When the root of the sum of the squared
  deficits of turbine \<open>i\<close> is a number \<open>t > 1\<close> and the wind speed is a number \<open>V\<close>, the
  evaluation returns, with no error, and the output velocity of turbine \<open>i\<close> is
  \<open>(1 - t) * V\<close>, which is negative for \<open>V > 0\<close>.
\<close>

theorem total_loss_not_clamped:
  assumes wf: "well_formed self p" and i: "i < nTurbines self"
    and f: "get_cosine_factor_original (turbineXw p) (turbineYw p)
              (Fin 0.5 * rotorDiameter p ! 0 * radius_multiplier self)
              (model_params_spread_angle p) (model_params_relaxationFactor p) = Inr f"
    and total: "np_sqrt (np_sum (map (\<lambda>j. loss_term (turbineXw p) (axialInduction p)
                   (map (\<lambda>d. Fin 0.5 * d) (rotorDiameter p)) (model_params_alpha p)
                   f i j (Fin 0)) [0..<nTurbines self])) = Fin t"
    and t: "1 < t" and V: "wind_speed p = Fin V" "0 < V"
  shows "\<exists>hubVelocity.
           JensenCosine_solve_nonlinear self p = Inr hubVelocity \<and>
           hubVelocity ! i = Fin ((1 - t) * V) \<and> (1 - t) * V < 0"
proof -
  from JensenCosine_solve_nonlinear_eq [OF wf] f
  have hv: "JensenCosine_solve_nonlinear self p =
                Inr (map (hub_value (nTurbines self) (turbineXw p) (axialInduction p)
                            (map (\<lambda>d. Fin 0.5 * d) (rotorDiameter p)) (model_params_alpha p)
                            (wind_speed p) f)
                       [0..<nTurbines self])"
    by auto
  have "hub_value (nTurbines self) (turbineXw p) (axialInduction p)
          (map (\<lambda>d. Fin 0.5 * d) (rotorDiameter p)) (model_params_alpha p) (wind_speed p) f i =
        Fin ((1 - t) * V)"
    unfolding hub_value_def total V(1) by (simp add: minus_npfloat_def)
  then have "map (hub_value (nTurbines self) (turbineXw p) (axialInduction p)
                  (map (\<lambda>d. Fin 0.5 * d) (rotorDiameter p)) (model_params_alpha p)
                  (wind_speed p) f) [0..<nTurbines self] ! i = Fin ((1 - t) * V)"
    using i by simp
  moreover have "(1 - t) * V < 0"
    using t V(2) by (simp add: mult_neg_pos)
  ultimately show ?thesis using hv by blast
qed

theorem total_loss_not_clamped_witness:
  "well_formed two_turbines close_pair \<and> 1 < nTurbines two_turbines \<and>
   (1::real) < 288000 / 160801 \<and> wind_speed close_pair = Fin 8 \<and>
   (\<exists>hubVelocity.
      JensenCosine_solve_nonlinear two_turbines close_pair = Inr hubVelocity \<and>
      hubVelocity ! 1 = Fin (- (1017592 / 160801)))"
proof -
  note wf = well_formed_close_pair
  have i: "1 < nTurbines two_turbines" by (simp add: two_turbines_def)
  have f: "get_cosine_factor_original (turbineXw close_pair) (turbineYw close_pair)
              (Fin 0.5 * rotorDiameter close_pair ! 0 * radius_multiplier two_turbines)
              (model_params_spread_angle close_pair) (model_params_relaxationFactor close_pair) =
           Inr [[Fin 0, Fin 1], [Fin 0, Fin 0]]"
    using close_pair_factor by (simp add: close_pair_def two_turbines_def)
  have t: "(1::real) < 288000 / 160801" by simp
  have V: "wind_speed close_pair = Fin 8" "(0::real) < 8"
    by (simp_all add: close_pair_def)
  from total_loss_not_clamped [OF wf i f close_pair_total t V]
  have "\<exists>hubVelocity.
      JensenCosine_solve_nonlinear two_turbines close_pair = Inr hubVelocity \<and>
      hubVelocity ! 1 = Fin (- (1017592 / 160801))"
    by simp
  with wf i t V show ?thesis by blast
qed

section \<open>The Fortran variant\<close>

lemma scenario_A_R0:
  "Fin 0.5 * rotorDiameter (scenario_A a) ! 0 * radius_multiplier two_turbines = Fin 40"
  by (simp add: scenario_A_def two_turbines_def)

lemma scenario_A_hub_values:
  "JensenCosine_solve_nonlinear two_turbines (scenario_A a) =
     Inr (map (hub_value 2 [Fin 0, Fin 500] [a, a] [Fin 40, Fin 40] (Fin 0.1) (Fin 8)
                 [[Fin 0, Fin 1], [Fin 0, Fin 0]]) [0..<2])"
proof -
  from JensenCosine_solve_nonlinear_eq [OF well_formed_scenario_A [of a]]
  obtain f where f: "get_cosine_factor_original (turbineXw (scenario_A a)) (turbineYw (scenario_A a))
                (Fin 0.5 * rotorDiameter (scenario_A a) ! 0 * radius_multiplier two_turbines)
                (model_params_spread_angle (scenario_A a))
                (model_params_relaxationFactor (scenario_A a)) = Inr f"
    and hv: "JensenCosine_solve_nonlinear two_turbines (scenario_A a) =
                Inr (map (hub_value (nTurbines two_turbines) (turbineXw (scenario_A a))
                            (axialInduction (scenario_A a))
                            (map (\<lambda>d. Fin 0.5 * d) (rotorDiameter (scenario_A a)))
                            (model_params_alpha (scenario_A a))
                            (wind_speed (scenario_A a)) f)
                       [0..<nTurbines two_turbines])"
    by blast
  have "f = [[Fin 0, Fin 1], [Fin 0, Fin 0]]"
    using f scenario_A_factor unfolding scenario_A_R0 by (simp add: scenario_A_def)
  with hv show ?thesis
    by (simp add: scenario_A_def two_turbines_def)
qed

lemma scenario_A_third:
  "JensenCosine_solve_nonlinear two_turbines (scenario_A (Fin (1 / 3))) =
     Inr [Fin 8, Fin (1688 / 243)]"
  unfolding scenario_A_hub_values
  by (simp add: upt_2 hub_value_def loss_term_def np_sum_def np_square_def minus_npfloat_def
      sqrt_scenario_A)

lemma scenario_A_zero:
  "JensenCosine_solve_nonlinear two_turbines (scenario_A (Fin 0)) = Inr [Fin 8, Fin 8]"
  unfolding scenario_A_hub_values
  by (simp add: upt_2 hub_value_def loss_term_def np_sum_def np_square_def minus_npfloat_def)

text \<open>
  Claim C9. The call of \<^verbatim>\<open>jensenwake\<close> is not given the axial induction (nor \<open>alpha\<close>,
  nor the spread angle). On the two-turbine example the cosine variant returns
  \<open>[8, 1688/243]\<close> with an axial induction of \<open>1/3\<close> and \<open>[8, 8]\<close> with an axial induction
  of 0, while the Fortran variant returns the same result for both, whatever function
  \<^verbatim>\<open>jensenwake\<close> is: the two variants differ on at least one of the two inputs.
\<close>

theorem fortran_ignores_axial_induction:
  "JensenCosine_solve_nonlinear two_turbines (scenario_A (Fin (1 / 3))) =
     Inr [Fin 8, Fin (1688 / 243)] \<and>
   JensenCosine_solve_nonlinear two_turbines (scenario_A (Fin 0)) = Inr [Fin 8, Fin 8] \<and>
   (\<forall>jensenwake.
      JensenCosineFortran_solve_nonlinear jensenwake two_turbines (scenario_A (Fin (1 / 3))) =
      JensenCosineFortran_solve_nonlinear jensenwake two_turbines (scenario_A (Fin 0))) \<and>
   (\<nexists>jensenwake.
      JensenCosineFortran_solve_nonlinear jensenwake two_turbines (scenario_A (Fin (1 / 3))) =
        JensenCosine_solve_nonlinear two_turbines (scenario_A (Fin (1 / 3))) \<and>
      JensenCosineFortran_solve_nonlinear jensenwake two_turbines (scenario_A (Fin 0)) =
        JensenCosine_solve_nonlinear two_turbines (scenario_A (Fin 0)))"
proof -
  have same: "JensenCosineFortran_solve_nonlinear jw two_turbines (scenario_A (Fin (1 / 3))) =
      JensenCosineFortran_solve_nonlinear jw two_turbines (scenario_A (Fin 0))" for jw
    by (simp add: JensenCosineFortran_solve_nonlinear_def scenario_A_def Let_def
        cong: sum.case_cong)
  have differ: "JensenCosine_solve_nonlinear two_turbines (scenario_A (Fin (1 / 3))) \<noteq>
      JensenCosine_solve_nonlinear two_turbines (scenario_A (Fin 0))"
    unfolding scenario_A_third scenario_A_zero by simp
  show ?thesis
    using same differ scenario_A_third scenario_A_zero by metis
qed

section \<open>Inputs on which an array is read beyond its length\<close>

lemma get_cosine_factor_original_short_Y:
  "get_cosine_factor_original [Fin 0, Fin 500] [Fin 0] R0 bound_angle relaxationFactor =
     Inl IndexError"
  by (simp add: get_cosine_factor_original_def cosine_factor_body_def upt_2)

lemma JensenCosine_solve_nonlinear_no_turbine:
  "rotorDiameter p = [] \<Longrightarrow> JensenCosine_solve_nonlinear self p = Inl IndexError"
  by (simp add: JensenCosine_solve_nonlinear_def)

end
